theory Spec2Isabelle
  imports Main "HOL-Library.Word"
begin

section \<open>C object layout\<close>

text \<open>
  \<^verbatim>\<open>simplefs.h\<close> is a header: structure declarations and the size macros computed
  from them with \<^verbatim>\<open>sizeof\<close>. A C type is represented by what \<^verbatim>\<open>sizeof\<close> and
  alignment need of it: its size and its alignment requirement, both in bytes. The rules
  are those of the ABIs Linux is built for: a scalar is aligned to its own size, an array
  has the alignment of its element and no gap between elements, a structure member is
  placed at the next offset that is a multiple of its alignment, and a structure has the
  largest alignment of its members and is padded at the end to a multiple of it.
\<close>

record ctype =
  size_of :: nat
  align_of :: nat

type_synonym member = "string \<times> ctype"

definition uint32_t :: ctype where
  "uint32_t = \<lparr>size_of = 4, align_of = 4\<rparr>"

definition char_t :: ctype where
  "char_t = \<lparr>size_of = 1, align_of = 1\<rparr>"

text \<open>Pointers are 4 bytes wide on a 32-bit target and 8 bytes wide on a 64-bit one.\<close>

datatype data_model = ILP32 | LP64

fun pointer_t :: "data_model \<Rightarrow> ctype" where
  "pointer_t ILP32 = \<lparr>size_of = 4, align_of = 4\<rparr>"
| "pointer_t LP64 = \<lparr>size_of = 8, align_of = 8\<rparr>"

definition array_t :: "ctype \<Rightarrow> nat \<Rightarrow> ctype" where
  "array_t t n = \<lparr>size_of = n * size_of t, align_of = align_of t\<rparr>"

definition round_up :: "nat \<Rightarrow> nat \<Rightarrow> nat" where
  "round_up n a = ((n + a - 1) div a) * a"

text \<open>The offset of each member, placing members in declaration order from offset \<open>off\<close>.\<close>

fun offsets :: "nat \<Rightarrow> member list \<Rightarrow> (string \<times> nat) list" where
  "offsets off [] = []"
| "offsets off ((n, t) # ms) =
     (let p = round_up off (align_of t) in (n, p) # offsets (p + size_of t) ms)"

text \<open>The offset just past the last member.\<close>

fun end_offset :: "nat \<Rightarrow> member list \<Rightarrow> nat" where
  "end_offset off [] = off"
| "end_offset off ((n, t) # ms) = end_offset (round_up off (align_of t) + size_of t) ms"

fun struct_align :: "member list \<Rightarrow> nat" where
  "struct_align [] = 1"
| "struct_align ((n, t) # ms) = max (align_of t) (struct_align ms)"

definition struct_t :: "member list \<Rightarrow> ctype" where
  "struct_t ms =
     \<lparr>size_of = round_up (end_offset 0 ms) (struct_align ms), align_of = struct_align ms\<rparr>"

text \<open>The bytes of a structure that belong to a member, as opposed to padding.\<close>

definition member_bytes :: "member list \<Rightarrow> nat" where
  "member_bytes ms = sum_list (map (\<lambda>(n, t). size_of t) ms)"

section \<open>The declarations of simplefs.h\<close>

definition SIMPLEFS_SB_BLOCK_NR :: nat where
  "SIMPLEFS_SB_BLOCK_NR = 0"

definition SIMPLEFS_BLOCK_SIZE :: nat where
  "SIMPLEFS_BLOCK_SIZE = 2 ^ 12"

definition SIMPLEFS_MAX_BLOCKS_PER_EXTENT :: nat where
  "SIMPLEFS_MAX_BLOCKS_PER_EXTENT = 8"

definition SIMPLEFS_FILENAME_LEN :: nat where
  "SIMPLEFS_FILENAME_LEN = 255"

definition struct_simplefs_inode :: "member list" where
  "struct_simplefs_inode =
     [(''i_mode'', uint32_t), (''i_uid'', uint32_t), (''i_gid'', uint32_t),
      (''i_size'', uint32_t), (''i_ctime'', uint32_t), (''i_atime'', uint32_t),
      (''i_mtime'', uint32_t), (''i_blocks'', uint32_t), (''i_nlink'', uint32_t),
      (''ei_block'', uint32_t), (''i_data'', array_t char_t 32)]"

definition SIMPLEFS_INODES_PER_BLOCK :: nat where
  "SIMPLEFS_INODES_PER_BLOCK = SIMPLEFS_BLOCK_SIZE div size_of (struct_t struct_simplefs_inode)"

definition struct_simplefs_extent :: "member list" where
  "struct_simplefs_extent =
     [(''ee_block'', uint32_t), (''ee_len'', uint32_t), (''ee_start'', uint32_t),
      (''nr_files'', uint32_t)]"

definition SIMPLEFS_MAX_EXTENTS :: nat where
  "SIMPLEFS_MAX_EXTENTS =
     (SIMPLEFS_BLOCK_SIZE - size_of uint32_t) div size_of (struct_t struct_simplefs_extent)"

definition SIMPLEFS_MAX_SIZES_PER_EXTENT :: nat where
  "SIMPLEFS_MAX_SIZES_PER_EXTENT = SIMPLEFS_MAX_BLOCKS_PER_EXTENT * SIMPLEFS_BLOCK_SIZE"

text \<open>
  The product is computed in \<^verbatim>\<open>uint64_t\<close>: the first factor is cast, the others are
  converted to it.
\<close>

definition SIMPLEFS_MAX_FILESIZE :: "64 word" where
  "SIMPLEFS_MAX_FILESIZE =
     of_nat SIMPLEFS_MAX_BLOCKS_PER_EXTENT * of_nat SIMPLEFS_BLOCK_SIZE
       * of_nat SIMPLEFS_MAX_EXTENTS"

definition struct_simplefs_file_ei_block :: "member list" where
  "struct_simplefs_file_ei_block =
     [(''nr_files'', uint32_t),
      (''extents'', array_t (struct_t struct_simplefs_extent) SIMPLEFS_MAX_EXTENTS)]"

definition struct_simplefs_file :: "member list" where
  "struct_simplefs_file =
     [(''inode'', uint32_t), (''nr_blk'', uint32_t),
      (''filename'', array_t char_t SIMPLEFS_FILENAME_LEN)]"

definition SIMPLEFS_FILES_PER_BLOCK :: nat where
  "SIMPLEFS_FILES_PER_BLOCK = SIMPLEFS_BLOCK_SIZE div size_of (struct_t struct_simplefs_file)"

definition SIMPLEFS_FILES_PER_EXT :: nat where
  "SIMPLEFS_FILES_PER_EXT = SIMPLEFS_FILES_PER_BLOCK * SIMPLEFS_MAX_BLOCKS_PER_EXTENT"

definition SIMPLEFS_MAX_SUBFILES :: nat where
  "SIMPLEFS_MAX_SUBFILES = SIMPLEFS_FILES_PER_EXT * SIMPLEFS_MAX_EXTENTS"

definition struct_simplefs_dir_block :: "member list" where
  "struct_simplefs_dir_block =
     [(''nr_files'', uint32_t),
      (''files'', array_t (struct_t struct_simplefs_file) SIMPLEFS_FILES_PER_BLOCK)]"

text \<open>
  \<^verbatim>\<open>struct simplefs_sb_info\<close> depends on how the header is compiled: the journal members
  exist only under \<^verbatim>\<open>__KERNEL__\<close>, and the third of them on the kernel version.
  \<^verbatim>\<open>KERNEL_VERSION\<close> and \<^verbatim>\<open>LINUX_VERSION_CODE\<close> come from the kernel's
  \<^verbatim>\<open>linux/version.h\<close>; the version code of the build is carried by \<open>Kernel\<close>.
\<close>

datatype build = Userspace | Kernel nat

definition KERNEL_VERSION :: "nat \<Rightarrow> nat \<Rightarrow> nat \<Rightarrow> nat" where
  "KERNEL_VERSION a b c = a * 2 ^ 16 + b * 2 ^ 8 + (if c > 255 then 255 else c)"

definition SIMPLEFS_AT_LEAST :: "nat \<Rightarrow> nat \<Rightarrow> nat \<Rightarrow> nat \<Rightarrow> bool" where
  "SIMPLEFS_AT_LEAST LINUX_VERSION_CODE major minor revision \<longleftrightarrow>
     LINUX_VERSION_CODE \<ge> KERNEL_VERSION major minor revision"

definition SIMPLEFS_LESS_EQUAL :: "nat \<Rightarrow> nat \<Rightarrow> nat \<Rightarrow> nat \<Rightarrow> bool" where
  "SIMPLEFS_LESS_EQUAL LINUX_VERSION_CODE major minor revision \<longleftrightarrow>
     LINUX_VERSION_CODE \<le> KERNEL_VERSION major minor revision"

fun sb_info_journal_members :: "data_model \<Rightarrow> build \<Rightarrow> member list" where
  "sb_info_journal_members dm Userspace = []"
| "sb_info_journal_members dm (Kernel v) =
     [(''journal'', pointer_t dm), (''s_journal_bdev'', pointer_t dm)]
     @ (if SIMPLEFS_AT_LEAST v 6 9 0 then [(''s_journal_bdev_file'', pointer_t dm)]
        else if SIMPLEFS_AT_LEAST v 6 7 0 then [(''s_journal_bdev_handle'', pointer_t dm)]
        else [])"

definition struct_simplefs_sb_info :: "data_model \<Rightarrow> build \<Rightarrow> member list" where
  "struct_simplefs_sb_info dm b =
     [(''magic'', uint32_t), (''nr_blocks'', uint32_t), (''nr_inodes'', uint32_t),
      (''nr_istore_blocks'', uint32_t), (''nr_ifree_blocks'', uint32_t),
      (''nr_bfree_blocks'', uint32_t), (''nr_free_inodes'', uint32_t),
      (''nr_free_blocks'', uint32_t),
      (''ifree_bitmap'', pointer_t dm), (''bfree_bitmap'', pointer_t dm)]
     @ sb_info_journal_members dm b"

section \<open>Values of the declared structures\<close>

text \<open>
  The structures as values: a \<^verbatim>\<open>uint32_t\<close> member is a 32-bit word, the array
  \<^verbatim>\<open>extents\<close> a list, and each in-memory bitmap the list of its bits.
\<close>

record simplefs_extent =
  ee_block :: "32 word"
  ee_len :: "32 word"
  ee_start :: "32 word"
  nr_files :: "32 word"

record simplefs_file_ei_block =
  nr_files :: "32 word"
  extents :: "simplefs_extent list"

record simplefs_sb_info =
  magic :: "32 word"
  nr_blocks :: "32 word"
  nr_inodes :: "32 word"
  nr_istore_blocks :: "32 word"
  nr_ifree_blocks :: "32 word"
  nr_bfree_blocks :: "32 word"
  nr_free_inodes :: "32 word"
  nr_free_blocks :: "32 word"
  ifree_bitmap :: "bool list"
  bfree_bitmap :: "bool list"

text \<open>
  \<^verbatim>\<open>0xDEADCELL\<close> is the hexadecimal constant \<^verbatim>\<open>0xDEADCE\<close> with the suffix
  \<^verbatim>\<open>LL\<close>: a \<^verbatim>\<open>long long\<close>, 64 bits wide.
\<close>

definition SIMPLEFS_MAGIC :: "64 word" where
  "SIMPLEFS_MAGIC = 0xDEADCE"

section \<open>Operations declared in the header or described by the specification\<close>

datatype error =
  CorruptSuperblock | InconsistentBitmap | NoSpace | FileTooLarge | DirectoryFull
  | NotFound | DoubleFree

text \<open>
  Modelled from the spec: \<^verbatim>\<open>simplefs_ext_search\<close> is declared in the header and its
  body is not part of the sources. The specification (4.4) has it scan the extent array
  in order and, for the first extent where the logical block falls within
  \<open>[ee_block, ee_block + ee_len)\<close>, return \<open>ee_start + (logical_block - ee_block)\<close>;
  otherwise the result is NotFound, here \<open>None\<close>. The interval is the one of the
  specification, over the numbers the fields hold; the result is a \<^verbatim>\<open>uint32_t\<close>.
\<close>

definition ext_end :: "simplefs_extent \<Rightarrow> nat" where
  "ext_end e = unat (ee_block e) + unat (ee_len e)"

definition covers :: "simplefs_extent \<Rightarrow> 32 word \<Rightarrow> bool" where
  "covers e iblock \<longleftrightarrow> unat (ee_block e) \<le> unat iblock \<and> unat iblock < ext_end e"

definition ext_phys :: "simplefs_extent \<Rightarrow> 32 word \<Rightarrow> 32 word" where
  "ext_phys e iblock = ee_start e + (iblock - ee_block e)"

fun ext_scan :: "simplefs_extent list \<Rightarrow> 32 word \<Rightarrow> 32 word option" where
  "ext_scan [] iblock = None"
| "ext_scan (e # es) iblock =
     (if covers e iblock then Some (ext_phys e iblock) else ext_scan es iblock)"

definition simplefs_ext_search :: "simplefs_file_ei_block \<Rightarrow> 32 word \<Rightarrow> 32 word option" where
  "simplefs_ext_search index iblock = ext_scan (extents index) iblock"

text \<open>
  An extent index is well formed when its extents are sorted by logical start and do not
  overlap. A slot of the array whose length is 0 holds no extent and is not constrained.
\<close>

definition disjoint_ext :: "simplefs_extent \<Rightarrow> simplefs_extent \<Rightarrow> bool" where
  "disjoint_ext a b \<longleftrightarrow> ext_end a \<le> unat (ee_block b) \<or> ext_end b \<le> unat (ee_block a)"

definition well_formed :: "simplefs_file_ei_block \<Rightarrow> bool" where
  "well_formed index =
     (let live = filter (\<lambda>e. ee_len e \<noteq> 0) (extents index)
      in sorted_wrt (\<lambda>a b. ee_block a \<le> ee_block b) live \<and> sorted_wrt disjoint_ext live)"

text \<open>
  Modelled from the spec: \<^verbatim>\<open>simplefs_fill_super\<close> is declared in the header and its
  body is not part of the sources. The specification (4.2) has the mount load the
  superblock, verify the magic, and fail with CorruptSuperblock on a magic mismatch or when
  the stored totals disagree with the derived bitmap sizes. How the sizes are derived is
  not said: that check is the parameter \<open>totals_agree\<close>. The comparison with the
  \<^verbatim>\<open>long long\<close> constant converts the \<^verbatim>\<open>uint32_t\<close> member to 64 bits.
\<close>

definition simplefs_fill_super ::
  "(simplefs_sb_info \<Rightarrow> bool) \<Rightarrow> simplefs_sb_info \<Rightarrow> error + simplefs_sb_info" where
  "simplefs_fill_super totals_agree sb =
     (if ucast (magic sb) \<noteq> SIMPLEFS_MAGIC then Inl CorruptSuperblock
      else if \<not> totals_agree sb then Inl CorruptSuperblock
      else Inr sb)"

text \<open>
  Modelled from the spec: the block allocator has no declaration in the header. The
  specification (4.1) has \<open>allocate_blocks(n)\<close> scan first-fit for \<open>n\<close> contiguous free
  bits, set them and decrement the free-block counter, and fail with NoSpace if there is
  no run of that length. A set bit is a block in use.
\<close>

definition run_free :: "bool list \<Rightarrow> nat \<Rightarrow> nat \<Rightarrow> bool" where
  "run_free bm s n \<longleftrightarrow> s + n \<le> length bm \<and> list_all (\<lambda>b. \<not> b) (take n (drop s bm))"

definition first_fit :: "bool list \<Rightarrow> nat \<Rightarrow> nat option" where
  "first_fit bm n = List.find (\<lambda>s. run_free bm s n) [0..<length bm]"

definition set_bits :: "bool list \<Rightarrow> nat \<Rightarrow> nat \<Rightarrow> bool list" where
  "set_bits bm s n = take s bm @ replicate n True @ drop (s + n) bm"

definition allocate_blocks :: "simplefs_sb_info \<Rightarrow> nat \<Rightarrow> error + nat \<times> simplefs_sb_info" where
  "allocate_blocks sb n =
     (case first_fit (bfree_bitmap sb) n of
        None \<Rightarrow> Inl NoSpace
      | Some s \<Rightarrow>
          Inr (s, sb\<lparr>bfree_bitmap := set_bits (bfree_bitmap sb) s n,
                     nr_free_blocks := nr_free_blocks sb - of_nat n\<rparr>))"

text \<open>
  Modelled from the spec: growing an extent index has no declaration in the header. The
  specification (4.4) has \<open>grow\<close> return the block of an extent that already covers the
  logical block; otherwise fail with FileTooLarge when the array is at capacity;
  otherwise request up to 8 contiguous blocks from the allocator, fewer if that is all
  that is free contiguously, append the extent \<open>{ee_block = new_logical_block,
  ee_len = allocated, ee_start = allocated_start}\<close> and increment the total count of the
  index. \<open>allocate_up_to\<close> asks for the longest run first.
\<close>

fun allocate_up_to :: "simplefs_sb_info \<Rightarrow> nat \<Rightarrow> error + nat \<times> nat \<times> simplefs_sb_info" where
  "allocate_up_to sb 0 = Inl NoSpace"
| "allocate_up_to sb (Suc k) =
     (case allocate_blocks sb (Suc k) of
        Inr (s, sb') \<Rightarrow> Inr (s, Suc k, sb')
      | Inl e \<Rightarrow> allocate_up_to sb k)"

definition grow ::
  "simplefs_sb_info \<Rightarrow> simplefs_file_ei_block \<Rightarrow> 32 word
   \<Rightarrow> error + 32 word \<times> simplefs_file_ei_block \<times> simplefs_sb_info" where
  "grow sb index iblock =
     (case simplefs_ext_search index iblock of
        Some p \<Rightarrow> Inr (p, index, sb)
      | None \<Rightarrow>
          if SIMPLEFS_MAX_EXTENTS \<le> unat (simplefs_file_ei_block.nr_files index)
          then Inl FileTooLarge
          else
            (case allocate_up_to sb SIMPLEFS_MAX_BLOCKS_PER_EXTENT of
               Inl e \<Rightarrow> Inl e
             | Inr (s, n, sb') \<Rightarrow>
                 Inr (of_nat s,
                      index\<lparr>extents :=
                              (extents index)[unat (simplefs_file_ei_block.nr_files index) :=
                                \<lparr>ee_block = iblock, ee_len = of_nat n, ee_start = of_nat s,
                                 nr_files = 0\<rparr>],
                            simplefs_file_ei_block.nr_files :=
                              simplefs_file_ei_block.nr_files index + 1\<rparr>,
                      sb')))"

text \<open>
  The extents stored in an index are the first \<open>nr_files\<close> slots of its array of
  \<open>SIMPLEFS_MAX_EXTENTS\<close> slots. The bound on the length of an extent, as a property of
  an index:
\<close>

definition stored_extents :: "simplefs_file_ei_block \<Rightarrow> simplefs_extent list" where
  "stored_extents index = take (unat (simplefs_file_ei_block.nr_files index)) (extents index)"

definition ee_len_bounded :: "simplefs_file_ei_block \<Rightarrow> bool" where
  "ee_len_bounded index \<longleftrightarrow>
     length (extents index) = SIMPLEFS_MAX_EXTENTS
     \<and> list_all (\<lambda>e. 1 \<le> unat (ee_len e) \<and> unat (ee_len e) \<le> SIMPLEFS_MAX_BLOCKS_PER_EXTENT)
         (stored_extents index)"

definition empty_index :: simplefs_file_ei_block where
  "empty_index =
     \<lparr>nr_files = 0,
      extents = replicate SIMPLEFS_MAX_EXTENTS
                  \<lparr>ee_block = 0, ee_len = 0, ee_start = 0, nr_files = 0\<rparr>\<rparr>"

section \<open>Example values\<close>

text \<open>
  An index with two extents and an unused slot, and a superblock of a 16-block volume
  whose first five blocks are in use.
\<close>

definition example_index :: simplefs_file_ei_block where
  "example_index =
     \<lparr>nr_files = 2,
      extents =
        [\<lparr>ee_block = 0, ee_len = 8, ee_start = 100, nr_files = 0\<rparr>,
         \<lparr>ee_block = 8, ee_len = 4, ee_start = 200, nr_files = 0\<rparr>,
         \<lparr>ee_block = 0, ee_len = 0, ee_start = 0, nr_files = 0\<rparr>]\<rparr>"

definition example_sb :: simplefs_sb_info where
  "example_sb =
     \<lparr>magic = 0xDEADCE, nr_blocks = 16, nr_inodes = 8, nr_istore_blocks = 1,
      nr_ifree_blocks = 1, nr_bfree_blocks = 1, nr_free_inodes = 7, nr_free_blocks = 11,
      ifree_bitmap = [True, False, False, False, False, False, False, False],
      bfree_bitmap = [True, True, True, True, True, False, False, False,
                      False, False, False, False, False, False, False, False]\<rparr>"

section \<open>Sizes of the declared structures\<close>

lemma simplefs_extent_t: "struct_t struct_simplefs_extent = \<lparr>size_of = 16, align_of = 4\<rparr>"
  by (simp add: struct_t_def struct_simplefs_extent_def uint32_t_def round_up_def)

lemma sizeof_simplefs_extent: "size_of (struct_t struct_simplefs_extent) = 16"
  by (simp add: simplefs_extent_t)

lemma max_extents_value: "SIMPLEFS_MAX_EXTENTS = 255"
  by (simp add: SIMPLEFS_MAX_EXTENTS_def SIMPLEFS_BLOCK_SIZE_def sizeof_simplefs_extent
      uint32_t_def)

lemma sizeof_simplefs_inode: "size_of (struct_t struct_simplefs_inode) = 72"
  by (simp add: struct_t_def struct_simplefs_inode_def uint32_t_def char_t_def array_t_def
      round_up_def)

lemma simplefs_file_t: "struct_t struct_simplefs_file = \<lparr>size_of = 264, align_of = 4\<rparr>"
  by (simp add: struct_t_def struct_simplefs_file_def uint32_t_def char_t_def array_t_def
      round_up_def SIMPLEFS_FILENAME_LEN_def)

lemma sizeof_simplefs_file: "size_of (struct_t struct_simplefs_file) = 264"
  by (simp add: simplefs_file_t)

lemma member_bytes_simplefs_file: "member_bytes struct_simplefs_file = 263"
  by (simp add: member_bytes_def struct_simplefs_file_def uint32_t_def char_t_def array_t_def
      SIMPLEFS_FILENAME_LEN_def)

lemma files_per_block_value: "SIMPLEFS_FILES_PER_BLOCK = 15"
  by (simp add: SIMPLEFS_FILES_PER_BLOCK_def sizeof_simplefs_file SIMPLEFS_BLOCK_SIZE_def)

lemma sizeof_simplefs_file_ei_block:
  "size_of (struct_t struct_simplefs_file_ei_block) = 4084"
  by (simp add: struct_simplefs_file_ei_block_def simplefs_extent_t max_extents_value)
     (simp add: struct_t_def uint32_t_def array_t_def round_up_def)

lemma sizeof_simplefs_dir_block:
  "size_of (struct_t struct_simplefs_dir_block) = 3964"
  by (simp add: struct_simplefs_dir_block_def simplefs_file_t files_per_block_value)
     (simp add: struct_t_def uint32_t_def array_t_def round_up_def)

lemma sizeof_simplefs_sb_info: "size_of (struct_t (struct_simplefs_sb_info dm b)) \<le> 72"
  by (cases dm; cases b)
     (simp_all add: struct_simplefs_sb_info_def struct_t_def uint32_t_def round_up_def)

lemma simplefs_file_offsets:
  "offsets 0 struct_simplefs_file = [(''inode'', 0), (''nr_blk'', 4), (''filename'', 8)]
   \<and> map (\<lambda>m. size_of (snd m)) struct_simplefs_file = [4, 4, 255]"
  by (simp add: struct_simplefs_file_def uint32_t_def char_t_def array_t_def round_up_def
      SIMPLEFS_FILENAME_LEN_def)

lemma simplefs_dir_block_offsets:
  "offsets 0 struct_simplefs_dir_block = [(''nr_files'', 0), (''files'', 4)]
   \<and> map (\<lambda>m. size_of (snd m)) struct_simplefs_dir_block = [4, 15 * 264]"
  by (simp add: struct_simplefs_dir_block_def simplefs_file_t files_per_block_value)
     (simp add: uint32_t_def array_t_def round_up_def)

text \<open>
  C1. With a block of 4096 bytes and at most 8 blocks per extent, the capacity of an
  extent index \<open>SIMPLEFS_MAX_EXTENTS\<close> is \<open>(4096 - 4) div 16 = 255\<close>, and the largest
  file size \<open>SIMPLEFS_MAX_FILESIZE\<close> is \<open>8 * 4096 * 255 = 8355840\<close> bytes.
\<close>

theorem max_filesize_value:
  "SIMPLEFS_BLOCK_SIZE = 4096 \<and> SIMPLEFS_MAX_BLOCKS_PER_EXTENT = 8
   \<and> SIMPLEFS_MAX_EXTENTS = (4096 - 4) div 16 \<and> SIMPLEFS_MAX_EXTENTS = 255
   \<and> SIMPLEFS_MAX_FILESIZE = 8355840
   \<and> unat SIMPLEFS_MAX_FILESIZE = 8 * 4096 * 255"
  by (simp add: SIMPLEFS_MAX_FILESIZE_def max_extents_value SIMPLEFS_BLOCK_SIZE_def
      SIMPLEFS_MAX_BLOCKS_PER_EXTENT_def)

section \<open>Searching an extent index\<close>

lemma covers_live: "covers e b \<Longrightarrow> ee_len e \<noteq> 0"
  by (auto simp: covers_def ext_end_def)

lemma disjoint_not_both: "disjoint_ext a c \<Longrightarrow> covers a b \<Longrightarrow> covers c b \<Longrightarrow> False"
  by (auto simp: disjoint_ext_def covers_def)

lemma ext_scan_first:
  "ext_scan es b = map_option (\<lambda>e. ext_phys e b) (List.find (\<lambda>e. covers e b) es)"
  by (induction es) simp_all

lemma ext_scan_none: "(\<And>e. e \<in> set es \<Longrightarrow> \<not> covers e b) \<Longrightarrow> ext_scan es b = None"
  by (induction es) simp_all

text \<open>Among disjoint extents the one that covers a block is the one the scan stops at.\<close>

lemma ext_scan_unique:
  "sorted_wrt disjoint_ext (filter (\<lambda>e. ee_len e \<noteq> 0) es) \<Longrightarrow> e \<in> set es \<Longrightarrow> covers e b
   \<Longrightarrow> ext_scan es b = Some (ext_phys e b)"
proof (induction es)
  case Nil
  then show ?case by simp
next
  case (Cons x es)
  show ?case
  proof (cases "covers x b")
    case True
    have "x = e"
    proof (rule ccontr)
      assume "x \<noteq> e"
      with Cons.prems(2) have mem: "e \<in> set es" by simp
      from True have "ee_len x \<noteq> 0" by (rule covers_live)
      moreover from Cons.prems(3) have "ee_len e \<noteq> 0" by (rule covers_live)
      ultimately have "disjoint_ext x e" using Cons.prems(1) mem by simp
      then show False using True Cons.prems(3) by (rule disjoint_not_both)
    qed
    with True show ?thesis by simp
  next
    case False
    with Cons.prems(2,3) have mem: "e \<in> set es" by auto
    from Cons.prems(1) have "sorted_wrt disjoint_ext (filter (\<lambda>e. ee_len e \<noteq> 0) es)"
      by (simp split: if_splits)
    from Cons.IH [OF this mem Cons.prems(3)] False show ?thesis by simp
  qed
qed

text \<open>
  C2. For every well-formed extent index (sorted by logical start, not overlapping) and
  every logical block \<open>iblock\<close>, \<open>simplefs_ext_search\<close> scans the extent array in order
  and returns \<open>ee_start + (iblock - ee_block)\<close> of the first extent whose range
  \<open>[ee_block, ee_block + ee_len)\<close> contains \<open>iblock\<close>: the result is that of any extent
  that covers \<open>iblock\<close>, and it is NotFound when no extent covers it.
\<close>

theorem ext_search_correct:
  assumes "well_formed index"
  shows "simplefs_ext_search index iblock =
           map_option (\<lambda>e. ee_start e + (iblock - ee_block e))
             (List.find (\<lambda>e. covers e iblock) (extents index))
         \<and> (\<forall>e \<in> set (extents index). covers e iblock \<longrightarrow>
               simplefs_ext_search index iblock = Some (ee_start e + (iblock - ee_block e)))
         \<and> ((\<forall>e \<in> set (extents index). \<not> covers e iblock) \<longrightarrow>
               simplefs_ext_search index iblock = None)"
proof -
  from assms have dis: "sorted_wrt disjoint_ext (filter (\<lambda>e. ee_len e \<noteq> 0) (extents index))"
    by (simp add: well_formed_def Let_def)
  have first: "simplefs_ext_search index iblock =
      map_option (\<lambda>e. ee_start e + (iblock - ee_block e))
        (List.find (\<lambda>e. covers e iblock) (extents index))"
    using ext_scan_first [of "extents index" iblock]
    by (simp add: simplefs_ext_search_def ext_phys_def)
  have covered: "simplefs_ext_search index iblock = Some (ee_start e + (iblock - ee_block e))"
    if "e \<in> set (extents index)" "covers e iblock" for e
    using ext_scan_unique [OF dis that] by (simp add: simplefs_ext_search_def ext_phys_def)
  have outside: "simplefs_ext_search index iblock = None"
    if "\<forall>e \<in> set (extents index). \<not> covers e iblock"
    using that by (simp add: simplefs_ext_search_def ext_scan_none)
  from first covered outside show ?thesis by blast
qed

theorem ext_search_correct_witness:
  "well_formed example_index
   \<and> simplefs_ext_search example_index 9 = Some 201
   \<and> simplefs_ext_search example_index 12 = None"
proof -
  have wf: "well_formed example_index"
    by (simp add: well_formed_def example_index_def disjoint_ext_def ext_end_def)
  have mem: "\<lparr>ee_block = 8, ee_len = 4, ee_start = 200, nr_files = 0\<rparr>
               \<in> set (extents example_index)"
    by (simp add: example_index_def)
  have cov: "covers \<lparr>ee_block = 8, ee_len = 4, ee_start = 200, nr_files = 0\<rparr> 9"
    by (simp add: covers_def ext_end_def)
  have out: "\<forall>e \<in> set (extents example_index). \<not> covers e 12"
    by (simp add: example_index_def covers_def ext_end_def)
  from ext_search_correct [OF wf, of 9] mem cov
  have "simplefs_ext_search example_index 9 = Some (200 + (9 - 8))"
    by fastforce
  moreover from ext_search_correct [OF wf, of 12] out
  have "simplefs_ext_search example_index 12 = None"
    by blast
  ultimately show ?thesis using wf by simp
qed

section \<open>The directory block\<close>

text \<open>
  C3, as the declarations have it. A directory block is a 4-byte entry count at offset 0
  followed at offset 4 by an array of 15 directory entries. An entry is a 4-byte inode
  number, a 4-byte block-usage counter and a 255-byte file name, 263 bytes of members,
  and occupies 264 bytes: the structure is aligned to 4 bytes and ends with one byte of
  padding. The block structure occupies 3964 of the 4096 bytes, and a 16th entry would
  not fit.
\<close>

theorem dir_block_layout:
  "offsets 0 struct_simplefs_file = [(''inode'', 0), (''nr_blk'', 4), (''filename'', 8)]
   \<and> map (\<lambda>m. size_of (snd m)) struct_simplefs_file = [4, 4, 255]
   \<and> member_bytes struct_simplefs_file = 263
   \<and> size_of (struct_t struct_simplefs_file) = 264
   \<and> offsets 0 struct_simplefs_dir_block = [(''nr_files'', 0), (''files'', 4)]
   \<and> map (\<lambda>m. size_of (snd m)) struct_simplefs_dir_block = [4, 15 * 264]
   \<and> size_of (struct_t struct_simplefs_dir_block) = 3964
   \<and> 4 + 15 * 264 \<le> SIMPLEFS_BLOCK_SIZE \<and> SIMPLEFS_BLOCK_SIZE < 4 + 16 * 264"
  using simplefs_file_offsets simplefs_dir_block_offsets
  by (simp add: member_bytes_simplefs_file sizeof_simplefs_file sizeof_simplefs_dir_block
      SIMPLEFS_BLOCK_SIZE_def)

text \<open>A directory entry does not occupy 263 bytes.\<close>

theorem dir_entry_not_263_bytes:
  "size_of (struct_t struct_simplefs_file) \<noteq> 4 + 4 + 255"
  by (simp add: sizeof_simplefs_file)

section \<open>Records and the device block\<close>

text \<open>
  C4. Every on-disk record type (superblock record, inode record, extent index block,
  directory block) has a fixed size that fits within one device block of 4096 bytes,
  however the header is compiled; in particular
  \<open>sizeof(struct simplefs_file_ei_block) \<le> 4096\<close> and
  \<open>sizeof(struct simplefs_dir_block) \<le> 4096\<close>.
\<close>

theorem on_disk_records_fit_block:
  "SIMPLEFS_BLOCK_SIZE = 4096
   \<and> size_of (struct_t (struct_simplefs_sb_info dm b)) \<le> SIMPLEFS_BLOCK_SIZE
   \<and> size_of (struct_t struct_simplefs_inode) = 72
   \<and> size_of (struct_t struct_simplefs_inode) \<le> SIMPLEFS_BLOCK_SIZE
   \<and> size_of (struct_t struct_simplefs_file_ei_block) = 4084
   \<and> size_of (struct_t struct_simplefs_file_ei_block) \<le> SIMPLEFS_BLOCK_SIZE
   \<and> size_of (struct_t struct_simplefs_dir_block) = 3964
   \<and> size_of (struct_t struct_simplefs_dir_block) \<le> SIMPLEFS_BLOCK_SIZE"
  using sizeof_simplefs_sb_info [of dm b]
  by (simp add: SIMPLEFS_BLOCK_SIZE_def sizeof_simplefs_inode sizeof_simplefs_file_ei_block
      sizeof_simplefs_dir_block)

section \<open>The superblock\<close>

text \<open>
  C5, as the declaration has it. The superblock structure begins with eight 4-byte
  members at offsets 0 to 28: the magic number, the total block and inode counts, the
  counts of inode-store, ifree-bitmap and bfree-bitmap blocks, and the free-inode and
  free-block counters. It has further members: the pointers to the two in-memory bitmaps
  and, when compiled for the kernel, the journal pointers.
\<close>

theorem sb_info_members:
  "take 8 (struct_simplefs_sb_info dm b) =
     [(''magic'', uint32_t), (''nr_blocks'', uint32_t), (''nr_inodes'', uint32_t),
      (''nr_istore_blocks'', uint32_t), (''nr_ifree_blocks'', uint32_t),
      (''nr_bfree_blocks'', uint32_t), (''nr_free_inodes'', uint32_t),
      (''nr_free_blocks'', uint32_t)]
   \<and> take 8 (offsets 0 (struct_simplefs_sb_info dm b)) =
     [(''magic'', 0), (''nr_blocks'', 4), (''nr_inodes'', 8), (''nr_istore_blocks'', 12),
      (''nr_ifree_blocks'', 16), (''nr_bfree_blocks'', 20), (''nr_free_inodes'', 24),
      (''nr_free_blocks'', 28)]
   \<and> drop 8 (struct_simplefs_sb_info dm Userspace) =
     [(''ifree_bitmap'', pointer_t dm), (''bfree_bitmap'', pointer_t dm)]
   \<and> map fst (drop 8 (struct_simplefs_sb_info dm (Kernel v))) =
     [''ifree_bitmap'', ''bfree_bitmap'', ''journal'', ''s_journal_bdev'']
     @ (if v \<ge> 395520 then [''s_journal_bdev_file'']
        else if v \<ge> 395008 then [''s_journal_bdev_handle''] else [])"
  by (simp add: struct_simplefs_sb_info_def uint32_t_def round_up_def SIMPLEFS_AT_LEAST_def
      KERNEL_VERSION_def)

text \<open>The members of the superblock structure are not only the eight counters.\<close>

theorem sb_info_has_more_members:
  "map fst (struct_simplefs_sb_info LP64 Userspace) \<noteq>
     [''magic'', ''nr_blocks'', ''nr_inodes'', ''nr_istore_blocks'', ''nr_ifree_blocks'',
      ''nr_bfree_blocks'', ''nr_free_inodes'', ''nr_free_blocks'']"
  by (simp add: struct_simplefs_sb_info_def)

lemma magic_matches:
  "(ucast (m :: 32 word) :: 64 word) = SIMPLEFS_MAGIC \<longleftrightarrow> m = 0xDEADCE"
proof
  assume eq: "(ucast m :: 64 word) = SIMPLEFS_MAGIC"
  have "(ucast (ucast m :: 64 word) :: 32 word) = m"
    by (rule ucast_up_ucast_id) (simp add: is_up)
  with eq show "m = 0xDEADCE" by (simp add: SIMPLEFS_MAGIC_def)
next
  assume "m = 0xDEADCE"
  then show "(ucast m :: 64 word) = SIMPLEFS_MAGIC" by (simp add: SIMPLEFS_MAGIC_def)
qed

text \<open>
  C6. Mounting fails with CorruptSuperblock whenever the magic member of the superblock
  differs from the constant \<^verbatim>\<open>0xDEADCELL\<close>, and a volume is accepted only if the
  magic matches.
\<close>

theorem fill_super_magic:
  "(ucast (magic sb) \<noteq> SIMPLEFS_MAGIC \<longrightarrow>
      simplefs_fill_super totals_agree sb = Inl CorruptSuperblock)
   \<and> (simplefs_fill_super totals_agree sb = Inr sb' \<longrightarrow>
        ucast (magic sb) = SIMPLEFS_MAGIC \<and> magic sb = 0xDEADCE)"
  by (auto simp: simplefs_fill_super_def magic_matches split: if_splits)

theorem fill_super_magic_witness:
  "simplefs_fill_super (\<lambda>sb. True) (example_sb\<lparr>magic := 0xDEADBEEF\<rparr>) = Inl CorruptSuperblock
   \<and> simplefs_fill_super (\<lambda>sb. True) example_sb = Inr example_sb
   \<and> magic example_sb = 0xDEADCE"
proof -
  have bad: "ucast (magic (example_sb\<lparr>magic := 0xDEADBEEF\<rparr>)) \<noteq> SIMPLEFS_MAGIC"
    by (simp add: SIMPLEFS_MAGIC_def)
  have good: "simplefs_fill_super (\<lambda>sb. True) example_sb = Inr example_sb"
    by (simp add: simplefs_fill_super_def SIMPLEFS_MAGIC_def example_sb_def)
  from fill_super_magic [of "example_sb\<lparr>magic := 0xDEADBEEF\<rparr>" "\<lambda>sb. True"] bad
    fill_super_magic [of example_sb "\<lambda>sb. True" example_sb] good
  show ?thesis by simp
qed

section \<open>The length of an extent\<close>

lemma allocate_up_to_len:
  "allocate_up_to sb k = Inr (s, n, sb') \<Longrightarrow> 1 \<le> n \<and> n \<le> k"
  by (induction k) (auto split: sum.splits)

lemma unat_small_len: "n \<le> 8 \<Longrightarrow> unat (of_nat n :: 32 word) = n"
proof -
  assume "n \<le> 8"
  then have "n < 2 ^ 32" by simp
  then show ?thesis by (simp add: unsigned_of_nat take_bit_nat_eq_self)
qed

lemma unat_count_succ:
  "unat (c :: 32 word) < 255 \<Longrightarrow> unat (c + 1) = Suc (unat c)"
  by (simp add: unat_word_ariths)

lemma take_Suc_update: "i < length xs \<Longrightarrow> take (Suc i) (xs[i := v]) = take i xs @ [v]"
  by (simp add: take_Suc_conv_app_nth)

lemma empty_index_bounded: "ee_len_bounded empty_index"
  by (simp add: ee_len_bounded_def empty_index_def stored_extents_def)

lemma search_empty_index: "simplefs_ext_search empty_index iblock = None"
  unfolding simplefs_ext_search_def
  by (rule ext_scan_none) (auto simp: empty_index_def covers_def ext_end_def)

lemma allocate_example:
  "allocate_up_to example_sb 8 =
     Inr (5, 8,
          example_sb\<lparr>bfree_bitmap := [True, True, True, True, True, True, True, True,
                                       True, True, True, True, True, False, False, False],
                     nr_free_blocks := 3\<rparr>)"
  by code_simp

lemma grow_example:
  "grow example_sb empty_index 0 =
     Inr (5,
          empty_index\<lparr>extents := (extents empty_index)
                        [0 := \<lparr>ee_block = 0, ee_len = 8, ee_start = 5, nr_files = 0\<rparr>],
                      simplefs_file_ei_block.nr_files := 1\<rparr>,
          example_sb\<lparr>bfree_bitmap := [True, True, True, True, True, True, True, True,
                                       True, True, True, True, True, False, False, False],
                     nr_free_blocks := 3\<rparr>)"
proof -
  have "simplefs_file_ei_block.nr_files empty_index = 0" by (simp add: empty_index_def)
  then show ?thesis
    by (simp add: grow_def search_empty_index max_extents_value allocate_example
        SIMPLEFS_MAX_BLOCKS_PER_EXTENT_def)
qed

text \<open>
  C7. Every extent stored in an extent index has a length \<open>ee_len\<close> between 1 and
  \<open>SIMPLEFS_MAX_BLOCKS_PER_EXTENT = 8\<close> blocks, and the operation that creates and
  grows extents maintains the bound: if it holds of an index, it holds of the index that
  \<open>grow\<close> returns.
\<close>

theorem grow_keeps_ee_len_bounded:
  assumes inv: "ee_len_bounded index"
    and g: "grow sb index iblock = Inr (p, index', sb')"
  shows "ee_len_bounded index'"
proof (cases "simplefs_ext_search index iblock")
  case (Some q)
  with g have "index' = index" by (simp add: grow_def)
  with inv show ?thesis by simp
next
  case None
  let ?c = "simplefs_file_ei_block.nr_files index"
  from None g have room: "unat ?c < SIMPLEFS_MAX_EXTENTS"
    by (auto simp: grow_def split: if_splits)
  from None g room obtain s n sb1 where
    alloc: "allocate_up_to sb SIMPLEFS_MAX_BLOCKS_PER_EXTENT = Inr (s, n, sb1)"
    and idx: "index' = index\<lparr>extents := (extents index)[unat ?c :=
                \<lparr>ee_block = iblock, ee_len = of_nat n, ee_start = of_nat s, nr_files = 0\<rparr>],
              simplefs_file_ei_block.nr_files := ?c + 1\<rparr>"
    by (auto simp: grow_def split: sum.splits)
  from allocate_up_to_len [OF alloc] have n: "1 \<le> n" "n \<le> 8"
    by (simp_all add: SIMPLEFS_MAX_BLOCKS_PER_EXTENT_def)
  from inv have len: "length (extents index) = SIMPLEFS_MAX_EXTENTS"
    and old: "list_all
                (\<lambda>e. 1 \<le> unat (ee_len e) \<and> unat (ee_len e) \<le> SIMPLEFS_MAX_BLOCKS_PER_EXTENT)
                (take (unat ?c) (extents index))"
    by (simp_all add: ee_len_bounded_def stored_extents_def)
  from room have c1: "unat (?c + 1) = Suc (unat ?c)"
    by (intro unat_count_succ) (simp add: max_extents_value)
  from room len have "unat ?c < length (extents index)" by simp
  then have "stored_extents index' = take (unat ?c) (extents index) @
      [\<lparr>ee_block = iblock, ee_len = of_nat n, ee_start = of_nat s, nr_files = 0\<rparr>]"
    by (simp add: stored_extents_def idx c1 take_Suc_update)
  with old n len show ?thesis
    by (simp add: ee_len_bounded_def idx unat_small_len SIMPLEFS_MAX_BLOCKS_PER_EXTENT_def)
qed

theorem grow_keeps_ee_len_bounded_witness:
  "ee_len_bounded empty_index
   \<and> grow example_sb empty_index 0 =
     Inr (5,
          empty_index\<lparr>extents := (extents empty_index)
                        [0 := \<lparr>ee_block = 0, ee_len = 8, ee_start = 5, nr_files = 0\<rparr>],
                      simplefs_file_ei_block.nr_files := 1\<rparr>,
          example_sb\<lparr>bfree_bitmap := [True, True, True, True, True, True, True, True,
                                       True, True, True, True, True, False, False, False],
                     nr_free_blocks := 3\<rparr>)
   \<and> ee_len_bounded
       (empty_index\<lparr>extents := (extents empty_index)
                        [0 := \<lparr>ee_block = 0, ee_len = 8, ee_start = 5, nr_files = 0\<rparr>],
                    simplefs_file_ei_block.nr_files := 1\<rparr>)"
  using empty_index_bounded grow_example
    grow_keeps_ee_len_bounded [OF empty_index_bounded grow_example]
  by simp

section \<open>The extent index block and the inode store\<close>

text \<open>
  C8. An extent index block is a 4-byte count at offset 0 followed at offset 4 by a
  packed array of 16-byte extent records, each made of the four 4-byte members
  \<open>ee_block\<close>, \<open>ee_len\<close>, \<open>ee_start\<close>, \<open>nr_files\<close> in that order; \<open>nr_files\<close> is
  documented as used for directories.
\<close>

theorem extent_index_layout:
  "offsets 0 struct_simplefs_extent =
     [(''ee_block'', 0), (''ee_len'', 4), (''ee_start'', 8), (''nr_files'', 12)]
   \<and> map (\<lambda>m. size_of (snd m)) struct_simplefs_extent = [4, 4, 4, 4]
   \<and> member_bytes struct_simplefs_extent = 16
   \<and> size_of (struct_t struct_simplefs_extent) = 16
   \<and> offsets 0 struct_simplefs_file_ei_block = [(''nr_files'', 0), (''extents'', 4)]
   \<and> map (\<lambda>m. size_of (snd m)) struct_simplefs_file_ei_block = [4, SIMPLEFS_MAX_EXTENTS * 16]"
  by (simp add: sizeof_simplefs_extent)
     (simp add: struct_simplefs_extent_def struct_simplefs_file_ei_block_def uint32_t_def
      round_up_def array_t_def struct_t_def member_bytes_def)

text \<open>
  C9. An inode-store block holds \<open>block size div inode record size\<close> inode records;
  the inode record is ten 4-byte members and a 32-byte inline buffer, 72 bytes, so
  \<open>SIMPLEFS_INODES_PER_BLOCK = 56\<close>.
\<close>

theorem inodes_per_block_value:
  "map (\<lambda>m. size_of (snd m)) struct_simplefs_inode = [4, 4, 4, 4, 4, 4, 4, 4, 4, 4, 32]
   \<and> size_of (struct_t struct_simplefs_inode) = 72
   \<and> SIMPLEFS_INODES_PER_BLOCK = SIMPLEFS_BLOCK_SIZE div 72
   \<and> SIMPLEFS_INODES_PER_BLOCK = 56"
  by (simp add: SIMPLEFS_INODES_PER_BLOCK_def sizeof_simplefs_inode SIMPLEFS_BLOCK_SIZE_def)
     (simp add: struct_simplefs_inode_def uint32_t_def char_t_def array_t_def)

text \<open>
  C10. A directory block holds 15 directory entries:
  \<open>SIMPLEFS_FILES_PER_BLOCK = 4096 div sizeof(struct simplefs_file) = 15\<close>, the 263
  bytes of the members of an entry being padded to 264 by alignment. The largest number
  of entries of a directory is \<open>SIMPLEFS_MAX_SUBFILES = 15 * 8 * 255 = 30600\<close>.
\<close>

theorem max_subfiles_value:
  "member_bytes struct_simplefs_file = 263
   \<and> size_of (struct_t struct_simplefs_file) = 264
   \<and> SIMPLEFS_FILES_PER_BLOCK = 4096 div size_of (struct_t struct_simplefs_file)
   \<and> SIMPLEFS_FILES_PER_BLOCK = 15
   \<and> SIMPLEFS_MAX_SUBFILES = 15 * 8 * 255
   \<and> SIMPLEFS_MAX_SUBFILES = 30600"
  by (simp add: member_bytes_simplefs_file sizeof_simplefs_file files_per_block_value
      SIMPLEFS_MAX_SUBFILES_def SIMPLEFS_FILES_PER_EXT_def max_extents_value
      SIMPLEFS_MAX_BLOCKS_PER_EXTENT_def)

end
